theory Spec2Isabelle
  imports Main "HOL-Library.Sublist"
begin

section \<open>Text primitives of the Python runtime\<close>

text \<open>
  The development embeds \<^verbatim>\<open>parse_natural_language_query\<close> of
  \<^verbatim>\<open>backend/main.py\<close>. Python text is modelled as \<^typ>\<open>string\<close>: a list of
  8-bit characters holding ASCII text, a code point beyond ASCII being its UTF-8 bytes.
  On ASCII the functions below are exactly Python's \<^verbatim>\<open>str.lower\<close>,
  \<^verbatim>\<open>str.strip\<close> and the classes \<^verbatim>\<open>\s\<close>, \<^verbatim>\<open>\d\<close>, \<^verbatim>\<open>\w\<close> of
  the \<^verbatim>\<open>re\<close> module on \<^verbatim>\<open>str\<close> patterns; a byte beyond ASCII is kept
  unchanged and belongs to no class. Python's \<^verbatim>\<open>a in b\<close> on strings is
  \<^term>\<open>sublist a b\<close>. Integers are unbounded, as in the language definition.
\<close>

definition is_space :: "char \<Rightarrow> bool" where
  "is_space c = ((of_char c :: nat) \<in> {9, 10, 11, 12, 13, 28, 29, 30, 31, 32})"

definition is_digit :: "char \<Rightarrow> bool" where
  "is_digit c = (48 \<le> (of_char c :: nat) \<and> (of_char c :: nat) \<le> 57)"

definition is_word :: "char \<Rightarrow> bool" where
  "is_word c = (let n = (of_char c :: nat) in
     (97 \<le> n \<and> n \<le> 122) \<or> (65 \<le> n \<and> n \<le> 90) \<or> (48 \<le> n \<and> n \<le> 57) \<or> n = 95)"

definition is_upper :: "char \<Rightarrow> bool" where
  "is_upper c = (65 \<le> (of_char c :: nat) \<and> (of_char c :: nat) \<le> 90)"

definition lower_char :: "char \<Rightarrow> char" where
  "lower_char c = (if is_upper c then ''abcdefghijklmnopqrstuvwxyz'' ! (of_char c - 65) else c)"

definition lower :: "string \<Rightarrow> string" where
  "lower s = map lower_char s"

definition strip :: "string \<Rightarrow> string" where
  "strip s = rev (dropWhile is_space (rev (dropWhile is_space s)))"

datatype error = ValueError

text \<open>
  \<^verbatim>\<open>int(s)\<close> on the text of a digit group. Any other text is reported as
  \<open>ValueError\<close>, which covers every text on which Python's \<^verbatim>\<open>int\<close> raises.
\<close>

definition digit_value :: "char \<Rightarrow> nat" where
  "digit_value c = of_char c - 48"

definition int_py :: "string \<Rightarrow> error + int" where
  "int_py s = (if s \<noteq> [] \<and> list_all is_digit s
     then Inr (int (foldl (\<lambda>a c. 10 * a + digit_value c) 0 s))
     else Inl ValueError)"

text \<open>\<^verbatim>\<open>str(n)\<close>, the text an f-string puts for an integer slot.\<close>

definition digit_char :: "nat \<Rightarrow> char" where
  "digit_char d = ''0123456789'' ! d"

fun str_nat :: "nat \<Rightarrow> string" where
  "str_nat n = (if n < 10 then [digit_char n] else str_nat (n div 10) @ [digit_char (n mod 10)])"

declare str_nat.simps [simp del]

definition str_int :: "int \<Rightarrow> string" where
  "str_int i = (if i < 0 then CHR ''-'' # str_nat (nat (- i)) else str_nat (nat i))"

section \<open>The regular expressions of the source\<close>

text \<open>
  \<^verbatim>\<open>re.search\<close> tries the pattern at every position from the left and returns the
  first match. Each pattern of the source is a keyword or a digit group followed by
  greedy repetitions of character classes; neighbouring pieces are disjoint (a digit is
  no space, a space is no word character and not the letter r), so the greedy choice is
  the only one and backtracking never finds another match. A matcher returns the text
  of the pattern's group when the pattern matches at the start of its argument.
\<close>

fun re_search :: "(string \<Rightarrow> 'a option) \<Rightarrow> string \<Rightarrow> 'a option" where
  "re_search m [] = m []"
| "re_search m (c # cs) = (case m (c # cs) of Some g \<Rightarrow> Some g | None \<Rightarrow> re_search m cs)"

text \<open>\<^verbatim>\<open>(\d+)\<close>\<close>

definition match_digits :: "string \<Rightarrow> string option" where
  "match_digits s = (let g = takeWhile is_digit s in if g \<noteq> [] then Some g else None)"

text \<open>\<^verbatim>\<open>(\d+)\s+rows\<close>\<close>

definition match_digits_rows :: "string \<Rightarrow> string option" where
  "match_digits_rows s =
     (let g = takeWhile is_digit s; r = dropWhile is_digit s
      in if g \<noteq> [] \<and> takeWhile is_space r \<noteq> [] \<and> prefix ''rows'' (dropWhile is_space r)
         then Some g else None)"

text \<open>\<^verbatim>\<open>kw\s+(\w+)\<close> and \<^verbatim>\<open>kw\s+(\d+)\<close>: a keyword, white space, a group of one class.\<close>

definition match_keyword :: "string \<Rightarrow> (char \<Rightarrow> bool) \<Rightarrow> string \<Rightarrow> string option" where
  "match_keyword kw cls s =
     (if prefix kw s then
        (let r = drop (length kw) s; g = takeWhile cls (dropWhile is_space r)
         in if takeWhile is_space r \<noteq> [] \<and> g \<noteq> [] then Some g else None)
      else None)"

text \<open>
  \<^verbatim>\<open>a(..)|b(..)\<close>: the first alternative is tried first; the match object holds
  group 1 and group 2, the group of the alternative not taken being \<^verbatim>\<open>None\<close>.
\<close>

definition match_alt ::
  "(string \<Rightarrow> string option) \<Rightarrow> (string \<Rightarrow> string option) \<Rightarrow> string \<Rightarrow> (string option \<times> string option) option" where
  "match_alt m1 m2 s =
     (case m1 s of Some g \<Rightarrow> Some (Some g, None)
      | None \<Rightarrow> (case m2 s of Some g \<Rightarrow> Some (None, Some g) | None \<Rightarrow> None))"

text \<open>
  \<^verbatim>\<open>m.group(1) if m.group(1) else m.group(2)\<close>, as the f-string then prints it:
  an empty or absent group 1 is false, and \<^verbatim>\<open>None\<close> prints as the text None.
\<close>

fun format_group :: "string option \<Rightarrow> string" where
  "format_group (Some g) = g"
| "format_group None = ''None''"

fun group1_or_group2 :: "string option \<times> string option \<Rightarrow> string" where
  "group1_or_group2 (Some g, g2) = (if g \<noteq> [] then g else format_group g2)"
| "group1_or_group2 (None, g2) = format_group g2"

section \<open>The code templates\<close>

text \<open>
  A template is the triple-quoted f-string of the source, given line by line: the text
  starts with a line break and every line ends with one. Slots are filled by
  concatenation, nothing is escaped. The doubled braces and the escaped quotes and
  backslashes of the f-strings are written as the characters they denote.
\<close>

definition code_text :: "string list \<Rightarrow> string" where
  "code_text ls = CHR 0x0A # concat (map (\<lambda>l. l @ [CHR 0x0A]) ls)"

abbreviation backslash :: string where
  "backslash \<equiv> [CHR 0x5C]"

abbreviation apostrophe :: string where
  "apostrophe \<equiv> [CHR 0x27]"

abbreviation check_mark :: string where
  "check_mark \<equiv> [CHR 0xE2, CHR 0x9C, CHR 0x85]"

abbreviation cross_mark :: string where
  "cross_mark \<equiv> [CHR 0xE2, CHR 0x9D, CHR 0x8C]"

abbreviation bar_chart :: string where
  "bar_chart \<equiv> [CHR 0xF0, CHR 0x9F, CHR 0x93, CHR 0x8A]"

definition large_partition_python :: "string \<Rightarrow> string \<Rightarrow> string \<Rightarrow> string \<Rightarrow> int \<Rightarrow> string" where
  \<open>large_partition_python keyspace table_name partition_key partition_value num_rows = code_text
    [''# Connect to your Cassandra cluster'',
     ''# ... connection code will be included in the driver code template ...'',
     '''',
     ''import uuid'',
     ''import random'',
     ''import time'',
     ''from datetime import datetime, timedelta'',
     '''',
     ''# Create a table with a simple schema for the large partition test'',
     ''create_table_query = """'',
     ''CREATE TABLE IF NOT EXISTS '' @ keyspace @ ''.'' @ table_name @ '' ('',
     ''    '' @ partition_key @ '' text,'',
     ''    activity_timestamp timestamp,'',
     ''    activity_type text,'',
     ''    details text,'',
     ''    PRIMARY KEY ('' @ partition_key @ '', activity_timestamp)'',
     '') WITH CLUSTERING ORDER BY (activity_timestamp DESC)'',
     ''"""'',
     ''session.execute(create_table_query)'',
     ''print(f"Table '' @ keyspace @ ''.'' @ table_name @ '' created or verified successfully")'',
     '''',
     ''# Define activity types for random selection'',
     ''activity_types = ["login", "click", "view", "purchase", "logout", "scroll", "search"]'',
     ''detail_templates = ['',
     ''    "Viewed product: {}",'',
     ''    "Clicked on: {}",'',
     ''    "Searched for: {}",'',
     ''    "Added to cart: {}",'',
     ''    "Purchased item: {}",'',
     ''    "Visited page: {}"'',
     '']'',
     ''products = ["laptop", "phone", "headphones", "keyboard", "mouse", "monitor", "tablet", "camera", "speaker", "watch"]'',
     '''',
     ''# Use a fixed partition key value to ensure all rows go to same partition'',
     ''partition_value = "large_partition_user"'',
     '''',
     ''# Prepare the insert statement for better performance'',
     ''prepared_stmt = session.prepare("""'',
     ''    INSERT INTO '' @ keyspace @ ''.'' @ table_name @ '' ('' @ partition_key @ '', activity_timestamp, activity_type, details)'',
     ''    VALUES (?, ?, ?, ?)'',
     ''""")'',
     '''',
     ''# Track timing'',
     ''start_time = time.time()'',
     ''batch_size = 100  # Insert in batches for better performance'',
     ''total_batches = '' @ str_int num_rows @ '' // batch_size + (1 if '' @ str_int num_rows @ '' % batch_size != 0 else 0)'',
     '''',
     ''print(f"Generating '' @ str_int num_rows @ '' rows in the same partition ('' @ apostrophe @ partition_value @ ''\')...")'',
     ''print(f"This will create a large partition to test partition size limitations.")'',
     '''',
     ''for batch in range(total_batches):'',
     ''    # Show progress periodically'',
     ''    if batch % 10 == 0 or batch == total_batches - 1:'',
     ''        print(f"Processing batch {batch+1}/{total_batches} ({(batch+1)*100/total_batches:.1f}%)")'',
     ''    '',
     ''    batch_rows = min(batch_size, '' @ str_int num_rows @ '' - batch * batch_size)'',
     ''    '',
     ''    # Process each row in the current batch'',
     ''    for i in range(batch_rows):'',
     ''        # Create a random timestamp in the past 30 days'',
     ''        random_minutes = random.randint(1, 30 * 24 * 60)  # 30 days in minutes'',
     ''        timestamp = datetime.now() - timedelta(minutes=random_minutes)'',
     ''        '',
     ''        # Generate random activity data'',
     ''        activity_type = random.choice(activity_types)'',
     ''        detail_template = random.choice(detail_templates)'',
     ''        detail = detail_template.format(random.choice(products))'',
     ''        '',
     ''        # Execute the prepared statement'',
     ''        session.execute(prepared_stmt, [partition_value, timestamp, activity_type, detail])'',
     ''    '',
     ''    # Small delay to avoid overwhelming the system'',
     ''    if batch < total_batches - 1:'',
     ''        time.sleep(0.01)'',
     '''',
     ''elapsed_time = time.time() - start_time'',
     ''print(f"Successfully inserted '' @ str_int num_rows @ '' rows into the same partition.")'',
     ''print(f"All rows have '' @ apostrophe @ partition_key @ ''\' = '' @ apostrophe @ partition_value @ ''\'")'',
     ''print(f"Total time: {elapsed_time:.2f} seconds")'',
     '''',
     ''# Demonstrate proper querying techniques for large partitions'',
     ''print("'' @ backslash @ ''n--- Querying Large Partition ---")'',
     '''',
     ''# 1. BAD QUERY: Query all rows for the user (will be inefficient for large partitions)'',
     ''print("'' @ backslash @ ''n'' @ cross_mark @ '' PROBLEMATIC QUERY (accesses entire partition):")'',
     ''query_bad = f"SELECT count(*) FROM '' @ keyspace @ ''.'' @ table_name @ '' WHERE '' @ partition_key @ '' = ?"'',
     ''prepared_bad = session.prepare(query_bad)'',
     '''',
     ''start_time = time.time()'',
     ''result = session.execute(prepared_bad, [partition_value])'',
     ''end_time = time.time()'',
     '''',
     ''count = result.one().count'',
     ''print(f"  Retrieved {count} rows in {end_time - start_time:.4f} seconds")'',
     '''',
     ''# 2. GOOD QUERY: Query with time slice constraints'',
     ''print("'' @ backslash @ ''n'' @ check_mark @ '' BETTER QUERY (with time slice constraints):")'',
     ''# Using a 1-hour time slice'',
     ''now = datetime.now()'',
     ''one_hour_ago = now - timedelta(hours=1)'',
     '''',
     ''query_good = f"""'',
     ''SELECT count(*) FROM '' @ keyspace @ ''.'' @ table_name @ '' '',
     ''WHERE '' @ partition_key @ '' = ? '',
     ''AND activity_timestamp >= ? '',
     ''AND activity_timestamp < ?'',
     ''"""'',
     ''prepared_good = session.prepare(query_good)'',
     '''',
     ''start_time = time.time()'',
     ''result = session.execute(prepared_good, [partition_value, one_hour_ago, now])'',
     ''end_time = time.time()'',
     '''',
     ''count = result.one().count'',
     ''print(f"  Retrieved {count} rows in {end_time - start_time:.4f} seconds")'',
     ''print(f"  (Time slice: past hour)")'',
     '''',
     ''# 3. Sample some data to show the contents'',
     ''print("'' @ backslash @ ''n'' @ bar_chart @ '' Sample data from the time slice:")'',
     ''sample_query = f"""'',
     ''SELECT * FROM '' @ keyspace @ ''.'' @ table_name @ '' '',
     ''WHERE '' @ partition_key @ '' = ? '',
     ''AND activity_timestamp >= ? '',
     ''AND activity_timestamp < ?'',
     ''LIMIT 5'',
     ''"""'',
     ''prepared_sample = session.prepare(sample_query)'',
     '''',
     ''rows = session.execute(prepared_sample, [partition_value, one_hour_ago, now])'',
     '''',
     ''for i, row in enumerate(rows):'',
     ''    print(f"'' @ backslash @ ''n  Sample {i+1}:")'',
     ''    print(f"    '' @ partition_key @ '': {row.'' @ partition_key @ ''}")'',
     ''    print(f"    Timestamp: {row.activity_timestamp}")'',
     ''    print(f"    Activity: {row.activity_type}")'',
     ''    print(f"    Details: {row.details}")'',
     '''',
     ''print("'' @ backslash @ ''nTo query this large partition, use: SELECT * FROM '' @ keyspace @ ''.'' @ table_name @ '' WHERE '' @ partition_key @ '' = '' @ apostrophe @ partition_value @ ''\';")'']\<close>

definition lwt_insert_python :: "string \<Rightarrow> string \<Rightarrow> string" where
  \<open>lwt_insert_python keyspace table_name = code_text
    [''# Connect to your Cassandra cluster'',
     ''# ... connection code will be included in the driver code template ...'',
     '''',
     ''import uuid'',
     ''from datetime import datetime'',
     '''',
     ''# Create the users table if it doesn\'t exist'',
     ''create_table_query = """'',
     ''CREATE TABLE IF NOT EXISTS '' @ keyspace @ ''.'' @ table_name @ '' ('',
     ''    username text PRIMARY KEY,'',
     ''    email text,'',
     ''    created_at timestamp'',
     '')'',
     ''"""'',
     ''session.execute(create_table_query)'',
     ''print(f"Table '' @ keyspace @ ''.'' @ table_name @ '' created or verified successfully")'',
     '''',
     ''# Clear any existing data for our test users to ensure clean results'',
     ''session.execute(f"DELETE FROM '' @ keyspace @ ''.'' @ table_name @ '' WHERE username = \'alice\'")'',
     ''session.execute(f"DELETE FROM '' @ keyspace @ ''.'' @ table_name @ '' WHERE username = \'bob\'")'',
     '''',
     ''print("'' @ backslash @ ''n--- Running LWT INSERT Example ---")'',
     '''',
     ''# Prepare the INSERT with IF NOT EXISTS statement (LWT)'',
     ''insert_query = f"""'',
     ''INSERT INTO '' @ keyspace @ ''.'' @ table_name @ '' (username, email, created_at)'',
     ''VALUES (?, ?, ?)'',
     ''IF NOT EXISTS'',
     ''"""'',
     ''prepared = session.prepare(insert_query)'',
     '''',
     ''# First attempt should succeed (user doesn\'t exist)'',
     ''username = "alice"'',
     ''email = "alice@example.com"'',
     ''created_at = datetime.now()'',
     '''',
     ''result = session.execute(prepared, [username, email, created_at])'',
     '''',
     ''# The first row of the result contains a boolean [applied] field'',
     ''if result[0].applied:'',
     ''    print(f"'' @ check_mark @ '' First INSERT succeeded: User \'{username}\' was created")'',
     ''else:'',
     ''    print(f"'' @ cross_mark @ '' First INSERT failed: User \'{username}\' already exists")'',
     '''',
     ''# Second attempt with the same username should fail (user already exists)'',
     ''result = session.execute(prepared, [username, "alice_new@example.com", datetime.now()])'',
     '''',
     ''if result[0].applied:'',
     ''    print(f"'' @ check_mark @ '' Second INSERT succeeded: User \'{username}\' was created")'',
     ''else:'',
     ''    print(f"'' @ cross_mark @ '' Second INSERT failed: User \'{username}\' already exists")'',
     ''    '',
     ''# Let\'s also try with a different user'',
     ''username = "bob"'',
     ''email = "bob@example.com"'',
     ''created_at = datetime.now()'',
     '''',
     ''result = session.execute(prepared, [username, email, created_at])'',
     ''print(f"'' @ check_mark @ '' INSERT for user \'{username}\' applied: {result[0].applied}")'',
     '''',
     ''print("'' @ backslash @ ''n--- Running LWT UPDATE Example ---")'',
     '''',
     ''# Prepare the UPDATE with IF condition'',
     ''update_query = f"""'',
     ''UPDATE '' @ keyspace @ ''.'' @ table_name,
     ''SET email = ?'',
     ''WHERE username = ?'',
     ''IF email = ?'',
     ''"""'',
     ''prepared_update = session.prepare(update_query)'',
     '''',
     ''# Update should succeed if current email matches'',
     ''username = "alice"'',
     ''old_email = "alice@example.com"'',
     ''new_email = "alice_updated@example.com"'',
     '''',
     ''result = session.execute(prepared_update, [new_email, username, old_email])'',
     '''',
     ''if result[0].applied:'',
     ''    print(f"'' @ check_mark @ '' UPDATE succeeded: Email for \'{username}\' was updated")'',
     ''else:'',
     ''    print(f"'' @ cross_mark @ '' UPDATE failed: Current email doesn\'t match condition")'',
     ''    print(f"   Current values: {dict(result[0])}")'',
     '''',
     ''# Verify the update with a SELECT query'',
     ''select_query = f"SELECT * FROM '' @ keyspace @ ''.'' @ table_name @ '' WHERE username = ?"'',
     ''prepared_select = session.prepare(select_query)'',
     ''rows = session.execute(prepared_select, [username])'',
     '''',
     ''for row in rows:'',
     ''    print(f"'' @ backslash @ ''nUser data after update:")'',
     ''    print(f"  Username: {row.username}")'',
     ''    print(f"  Email: {row.email}")'',
     ''    print(f"  Created at: {row.created_at}")'',
     '''',
     ''print("'' @ backslash @ ''n--- Running LWT DELETE Example ---")'',
     '''',
     ''# Prepare DELETE with IF condition'',
     ''delete_query = f"""'',
     ''DELETE FROM '' @ keyspace @ ''.'' @ table_name,
     ''WHERE username = ?'',
     ''IF email = ?'',
     ''"""'',
     ''prepared_delete = session.prepare(delete_query)'',
     '''',
     ''# Try to delete with correct condition'',
     ''result = session.execute(prepared_delete, [username, new_email])'',
     '''',
     ''if result[0].applied:'',
     ''    print(f"'' @ check_mark @ '' DELETE succeeded: User \'{username}\' was deleted")'',
     ''else:'',
     ''    print(f"'' @ cross_mark @ '' DELETE failed: Email condition not met")'',
     ''    print(f"   Current values: {dict(result[0])}")'',
     '''',
     ''# Verify deletion'',
     ''rows = session.execute(prepared_select, [username])'',
     ''if not list(rows):'',
     ''    print(f"Verified: User \'{username}\' has been deleted")'',
     ''else:'',
     ''    print(f"User \'{username}\' still exists in the database")'',
     '''',
     ''print("'' @ backslash @ ''nLightweight Transaction (LWT) operations complete!")'']\<close>

definition lwt_update_python :: "string \<Rightarrow> string \<Rightarrow> string" where
  \<open>lwt_update_python keyspace table_name = code_text
    [''# Connect to your Cassandra cluster'',
     ''# ... connection code will be included in the driver code template ...'',
     '''',
     ''from datetime import datetime'',
     '''',
     ''# First, ensure we have the table and some data to work with'',
     ''create_table_query = """'',
     ''CREATE TABLE IF NOT EXISTS '' @ keyspace @ ''.'' @ table_name @ '' ('',
     ''    username text PRIMARY KEY,'',
     ''    email text,'',
     ''    created_at timestamp'',
     '')'',
     ''"""'',
     ''session.execute(create_table_query)'',
     ''print(f"Table '' @ keyspace @ ''.'' @ table_name @ '' created or verified successfully")'',
     '''',
     ''# Create a user if it doesn\'t exist'',
     ''session.execute("""'',
     ''INSERT INTO '' @ keyspace @ ''.'' @ table_name @ '' (username, email, created_at)'',
     ''VALUES (\'alice\', \'alice@example.com\', toTimestamp(now()))'',
     ''IF NOT EXISTS'',
     ''""")'',
     '''',
     ''print("'' @ backslash @ ''n--- Running LWT UPDATE Example ---")'',
     '''',
     ''# Show current value'',
     ''select_query = f"SELECT * FROM '' @ keyspace @ ''.'' @ table_name @ '' WHERE username = \'alice\'"'',
     ''rows = session.execute(select_query)'',
     ''row = rows.one()'',
     ''print(f"Current email for alice: {row.email if row else \'not found\'}")'',
     '''',
     ''# Perform conditional update - should succeed'',
     ''update_query = f"""'',
     ''UPDATE '' @ keyspace @ ''.'' @ table_name,
     ''SET email = ?'',
     ''WHERE username = ?'',
     ''IF email = ?'',
     ''"""'',
     ''prepared_update = session.prepare(update_query)'',
     '''',
     ''result = session.execute(prepared_update, ["alice_updated@example.com", "alice", "alice@example.com"])'',
     '''',
     ''if result[0].applied:'',
     ''    print(f"'' @ check_mark @ '' UPDATE succeeded: Email for alice was updated")'',
     ''else:'',
     ''    print(f"'' @ cross_mark @ '' UPDATE failed: Current email doesn\'t match condition")'',
     ''    print(f"   Current values: {dict(result[0])}")'',
     '''',
     ''# Try with wrong condition - should fail'',
     ''result = session.execute(prepared_update, ["alice_updated_again@example.com", "alice", "wrong@example.com"])'',
     '''',
     ''if result[0].applied:'',
     ''    print(f"'' @ check_mark @ '' UPDATE succeeded: Email for alice was updated again")'',
     ''else:'',
     ''    print(f"'' @ cross_mark @ '' UPDATE failed: Email condition not met")'',
     ''    print(f"   Current values: {dict(result[0])}")'',
     '''',
     ''# Verify final value'',
     ''rows = session.execute(select_query)'',
     ''row = rows.one()'',
     ''print(f"Final email for alice: {row.email if row else \'not found\'}")'']\<close>

definition bulk_insert_python :: "string \<Rightarrow> string \<Rightarrow> int \<Rightarrow> string" where
  \<open>bulk_insert_python keyspace table_name num_rows = code_text
    [''# Connect to your Cassandra cluster'',
     ''# ... connection code will be included in the driver code template ...'',
     '''',
     ''import uuid'',
     ''import random'',
     ''from datetime import datetime, timedelta'',
     '''',
     ''# Define sample data generators'',
     ''first_names = ["James", "Mary", "John", "Patricia", "Robert", "Jennifer", "Michael", "Linda", "William", "Elizabeth", '',
     ''               "David", "Barbara", "Richard", "Susan", "Joseph", "Jessica", "Thomas", "Sarah", "Charles", "Karen"]'',
     ''last_names = ["Smith", "Johnson", "Williams", "Jones", "Brown", "Davis", "Miller", "Wilson", "Moore", "Taylor", '',
     ''              "Anderson", "Thomas", "Jackson", "White", "Harris", "Martin", "Thompson", "Garcia", "Martinez", "Robinson"]'',
     ''domains = ["gmail.com", "yahoo.com", "hotmail.com", "outlook.com", "example.com", "mail.org"]'',
     '''',
     ''# Create the users table if it doesn\'t exist'',
     ''create_table_query = """'',
     ''CREATE TABLE IF NOT EXISTS '' @ keyspace @ ''.'' @ table_name @ '' ('',
     ''    id uuid PRIMARY KEY,'',
     ''    name text,'',
     ''    email text,'',
     ''    created_at timestamp'',
     '')'',
     ''"""'',
     ''session.execute(create_table_query)'',
     ''print(f"Table '' @ keyspace @ ''.'' @ table_name @ '' created or verified successfully")'',
     '''',
     ''# Prepare the insert statement for better performance'',
     ''prepared_stmt = session.prepare("""'',
     ''    INSERT INTO '' @ keyspace @ ''.'' @ table_name @ '' (id, name, email, created_at)'',
     ''    VALUES (?, ?, ?, ?)'',
     ''""")'',
     '''',
     ''print(f"Inserting '' @ str_int num_rows @ '' rows into '' @ keyspace @ ''.'' @ table_name @ ''...")'',
     '''',
     ''# Track timing'',
     ''start_time = datetime.now()'',
     '''',
     ''for i in range('' @ str_int num_rows @ ''):'',
     ''    # Generate random user data'',
     ''    user_id = uuid.uuid4()'',
     ''    first_name = random.choice(first_names)'',
     ''    last_name = random.choice(last_names)'',
     ''    name = f"{first_name} {last_name}"'',
     ''    email = f"{first_name.lower()}.{last_name.lower()}@'' @ ''{random.choice(domains)}"'',
     ''    '',
     ''    # Random date in the past year'',
     ''    days_ago = random.randint(0, 365)'',
     ''    created_at = datetime.now() + timedelta(days=days_ago)'',
     ''    '',
     ''    # Insert the row'',
     ''    session.execute(prepared_stmt, [user_id, name, email, created_at])'',
     ''    '',
     ''    # Show progress for larger inserts'',
     ''    if '' @ str_int num_rows @ '' > 100 and i % ('' @ str_int num_rows @ '' // 10) == 0:'',
     ''        print(f"Progress: {i+1}/'' @ str_int num_rows @ '' rows inserted ({(i+1)*100/'' @ str_int num_rows @ '':.1f}%)")'',
     '''',
     ''elapsed_time = (datetime.now() - start_time).total_seconds()'',
     ''print(f"'' @ check_mark @ '' Successfully inserted '' @ str_int num_rows @ '' rows into '' @ keyspace @ ''.'' @ table_name @ ''")'',
     ''print(f"Total time: {elapsed_time:.2f} seconds")'',
     '''',
     ''# Sample the data we just inserted'',
     ''print("'' @ backslash @ ''n--- Sample Data ---")'',
     ''rows = session.execute(f"SELECT * FROM '' @ keyspace @ ''.'' @ table_name @ '' LIMIT 5")'',
     '''',
     ''for i, row in enumerate(rows):'',
     ''    print(f"'' @ backslash @ ''nRow {i+1}:")'',
     ''    print(f"  ID: {row.id}")'',
     ''    print(f"  Name: {row.name}")'',
     ''    print(f"  Email: {row.email}")'',
     ''    print(f"  Created At: {row.created_at}")'',
     '''',
     ''print(f"'' @ backslash @ ''nTo view all data: SELECT * FROM '' @ keyspace @ ''.'' @ table_name @ '';")'']\<close>

definition select_count_python :: "string \<Rightarrow> string \<Rightarrow> string" where
  \<open>select_count_python keyspace table_name = code_text
    [''# Connect to your Cassandra cluster'',
     ''# ... connection code will be included in the driver code template ...'',
     '''',
     ''# Count rows in the table'',
     ''count_query = f"SELECT COUNT(*) FROM '' @ keyspace @ ''.'' @ table_name @ ''"'',
     ''result = session.execute(count_query)'',
     ''count = result.one().count  # The count is in the first column of the first row'',
     '''',
     ''print(f"Total rows in '' @ keyspace @ ''.'' @ table_name @ '': {count}")'']\<close>

definition select_rows_python :: "string \<Rightarrow> string \<Rightarrow> int \<Rightarrow> string" where
  \<open>select_rows_python keyspace table_name limit = code_text
    [''# Connect to your Cassandra cluster'',
     ''# ... connection code will be included in the driver code template ...'',
     '''',
     ''import time'',
     '''',
     ''# Execute query to select data'',
     ''query = f"SELECT * FROM '' @ keyspace @ ''.'' @ table_name @ '' LIMIT '' @ str_int limit @ ''"'',
     ''print(f"Executing query: {query}")'',
     '''',
     ''# Track query performance'',
     ''start_time = time.time()'',
     ''rows = session.execute(query)'',
     ''end_time = time.time()'',
     '''',
     ''# Convert rows to a list to get row count (this consumes the iterator)'',
     ''results = list(rows)'',
     ''count = len(results)'',
     '''',
     ''print(f"Query executed in {end_time - start_time:.4f} seconds")'',
     ''print(f"Retrieved {count} rows from '' @ keyspace @ ''.'' @ table_name @ ''")'',
     '''',
     ''# Print column names'',
     ''if count > 0:'',
     ''    print("'' @ backslash @ ''nColumns:")'',
     ''    for col_name in results[0]._fields:'',
     ''        print(f"  - {col_name}")'',
     '''',
     ''# Print the data'',
     ''print("'' @ backslash @ ''nData:")'',
     ''for i, row in enumerate(results):'',
     ''    print(f"'' @ backslash @ ''nRow {i+1}:")'',
     ''    for field_name in row._fields:'',
     ''        print(f"  {field_name}: {getattr(row, field_name)}")'',
     '''',
     ''# Show CQL for more queries'',
     ''print(f"'' @ backslash @ ''nMore query examples:")'',
     ''print(f"1. Count rows: SELECT COUNT(*) FROM '' @ keyspace @ ''.'' @ table_name @ '';")'',
     ''print(f"2. Get specific columns: SELECT id, name FROM '' @ keyspace @ ''.'' @ table_name @ '' LIMIT 5;")'',
     ''print(f"3. Filter by a column: SELECT * FROM '' @ keyspace @ ''.'' @ table_name @ '' WHERE <column> = <value> ALLOW FILTERING;")'']\<close>

definition default_code :: "string \<Rightarrow> string" where
  \<open>default_code query = code_text
    [''# Connect to your Cassandra cluster'',
     ''# ... connection code will be included in the driver code template ...'',
     '''',
     ''# Execute the query'',
     ''query = "'' @ query @ ''"  # This is your natural language query'',
     ''print(f"Executing query: {query}")'',
     '''',
     ''# This is a placeholder. In a real application, you would perform'',
     ''# appropriate actions based on the query intent.'',
     ''result = session.execute("SELECT * FROM system.local")'',
     ''print("Query executed")'',
     '''',
     ''# Print some example results'',
     ''for row in result:'',
     ''    print(row)'']\<close>
section \<open>The function\<close>

text \<open>
  The conditions of the four \<^verbatim>\<open>if\<close> statements of the function, over the
  normalised query.
\<close>

definition large_partition_requested :: "string \<Rightarrow> bool" where
  "large_partition_requested query =
     (sublist ''large partition'' query \<or> sublist ''big partition'' query
      \<or> sublist ''test partition'' query
      \<or> (sublist ''partition'' query \<and> sublist ''size'' query)
      \<or> (sublist ''generate'' query \<and> sublist ''partition'' query)
      \<or> sublist ''create a large partition'' query
      \<or> sublist ''large partition example'' query
      \<or> strip query = ''create large partition''
      \<or> sublist ''partition large'' query)"

definition lwt_requested :: "string \<Rightarrow> bool" where
  "lwt_requested query =
     (sublist ''lightweight'' query \<or> sublist ''lwt'' query \<or> sublist ''if not exists'' query
      \<or> sublist ''conditional'' query \<or> sublist ''create lwt'' query
      \<or> sublist ''lwt example'' query \<or> strip query = ''lwt'' \<or> sublist ''use lwt'' query)"

definition bulk_insert_requested :: "string \<Rightarrow> bool" where
  "bulk_insert_requested query =
     ((sublist ''insert'' query \<or> sublist ''add'' query \<or> sublist ''create'' query)
      \<and> (sublist ''row'' query \<or> sublist ''record'' query \<or> sublist ''data'' query))"

definition select_requested :: "string \<Rightarrow> bool" where
  "select_requested query =
     (sublist ''select'' query \<or> sublist ''query'' query \<or> sublist ''get'' query
      \<or> sublist ''retrieve'' query \<or> sublist ''show'' query \<or> sublist ''list'' query
      \<or> sublist ''all rows'' query \<or> sublist ''all records'' query)"

text \<open>The values the branches extract from the query.\<close>

definition large_partition_num_rows :: "string \<Rightarrow> error + int" where
  "large_partition_num_rows query =
     (case re_search match_digits_rows query of Some g \<Rightarrow> int_py g | None \<Rightarrow> Inr 1000)"

definition large_partition_table_name :: "string \<Rightarrow> string" where
  "large_partition_table_name query =
     (case re_search (match_keyword ''table'' is_word) query of
        Some g \<Rightarrow> g | None \<Rightarrow> ''user_activity'')"

definition large_partition_key :: "string \<Rightarrow> string" where
  "large_partition_key query =
     (case re_search (match_keyword ''key'' is_word) query of
        Some g \<Rightarrow> g | None \<Rightarrow> ''user_id'')"

definition lwt_table_name :: "string \<Rightarrow> string" where
  "lwt_table_name query =
     (case re_search (match_keyword ''table'' is_word) query of
        Some g \<Rightarrow> g | None \<Rightarrow> ''users'')"

definition lwt_operation_type :: "string \<Rightarrow> string" where
  "lwt_operation_type query = (if sublist ''update'' query then ''update'' else ''insert'')"

definition bulk_insert_num_rows :: "string \<Rightarrow> error + int" where
  "bulk_insert_num_rows query =
     (case re_search match_digits query of Some g \<Rightarrow> int_py g | None \<Rightarrow> Inr 10)"

definition bulk_insert_table_name :: "string \<Rightarrow> string" where
  "bulk_insert_table_name query =
     (case re_search (match_alt (match_keyword ''table'' is_word) (match_keyword ''into'' is_word)) query of
        Some m \<Rightarrow> group1_or_group2 m | None \<Rightarrow> ''users'')"

definition select_table_name :: "string \<Rightarrow> string" where
  "select_table_name query =
     (case re_search (match_alt (match_keyword ''from'' is_word) (match_keyword ''table'' is_word)) query of
        Some m \<Rightarrow> group1_or_group2 m | None \<Rightarrow> ''users'')"

definition select_limit :: "string \<Rightarrow> error + int" where
  "select_limit query =
     (case re_search (match_keyword ''limit'' is_digit) query of Some g \<Rightarrow> int_py g | None \<Rightarrow> Inr 10)"

text \<open>
  Each \<^verbatim>\<open>if\<close> statement of the function is a branch with three outcomes: an
  exception (\<open>Inl\<close>), a returned text (\<open>Inr (Some r)\<close>), or control reaching
  the statement after it (\<open>Inr None\<close>).
\<close>

definition large_partition_branch :: "string \<Rightarrow> string \<Rightarrow> string \<Rightarrow> error + string option" where
  "large_partition_branch query keyspace driver_type =
     (if large_partition_requested query then
        (case large_partition_num_rows query of
           Inl e \<Rightarrow> Inl e
         | Inr num_rows \<Rightarrow>
             (let table_name = large_partition_table_name query;
                  partition_key = large_partition_key query;
                  partition_value = ''large_partition_user''
              in if driver_type = ''python''
                 then Inr (Some (large_partition_python keyspace table_name partition_key partition_value num_rows))
                 else Inr (Some ''Java driver code for large partition example'')))
      else Inr None)"

definition lwt_branch :: "string \<Rightarrow> string \<Rightarrow> string \<Rightarrow> error + string option" where
  "lwt_branch query keyspace driver_type =
     (if lwt_requested query then
        (let table_name = lwt_table_name query;
             operation_type = lwt_operation_type query
         in if driver_type = ''python'' then
              (if operation_type = ''insert'' then Inr (Some (lwt_insert_python keyspace table_name))
               else if operation_type = ''update'' then Inr (Some (lwt_update_python keyspace table_name))
               else Inr None)
            else Inr (Some ''Java driver code for LWT example''))
      else Inr None)"

definition bulk_insert_branch :: "string \<Rightarrow> string \<Rightarrow> string \<Rightarrow> error + string option" where
  "bulk_insert_branch query keyspace driver_type =
     (if bulk_insert_requested query then
        (case bulk_insert_num_rows query of
           Inl e \<Rightarrow> Inl e
         | Inr num_rows \<Rightarrow>
             (let table_name = bulk_insert_table_name query
              in if driver_type = ''python''
                 then Inr (Some (bulk_insert_python keyspace table_name num_rows))
                 else Inr (Some ''Java driver code for inserting rows'')))
      else Inr None)"

definition select_branch :: "string \<Rightarrow> string \<Rightarrow> string \<Rightarrow> error + string option" where
  "select_branch query keyspace driver_type =
     (if select_requested query then
        (let table_name = select_table_name query;
             count_query = sublist ''count'' query
         in case select_limit query of
              Inl e \<Rightarrow> Inl e
            | Inr limit \<Rightarrow>
                (if driver_type = ''python'' then
                   (if count_query then Inr (Some (select_count_python keyspace table_name))
                    else Inr (Some (select_rows_python keyspace table_name limit)))
                 else Inr (Some ''Java driver code for selecting data'')))
      else Inr None)"

text \<open>A statement followed by the rest of the function body.\<close>

fun otherwise :: "error + string option \<Rightarrow> error + string \<Rightarrow> error + string" where
  "otherwise (Inl e) rest = Inl e"
| "otherwise (Inr (Some r)) rest = Inr r"
| "otherwise (Inr None) rest = rest"

definition normalized :: "string \<Rightarrow> string" where
  "normalized query = strip (lower query)"

definition parse_natural_language_query :: "string \<Rightarrow> string \<Rightarrow> string \<Rightarrow> error + string" where
  "parse_natural_language_query query0 keyspace driver_type =
     (let query = normalized query0 in
      otherwise (large_partition_branch query keyspace driver_type)
     (otherwise (lwt_branch query keyspace driver_type)
     (otherwise (bulk_insert_branch query keyspace driver_type)
     (otherwise (select_branch query keyspace driver_type)
     (Inr (default_code query))))))"

section \<open>Notions used to state the properties\<close>

text \<open>
  \<open>word_after kw q i g\<close>: at offset \<open>i\<close> of the text \<open>q\<close> stands the keyword
  \<open>kw\<close>, then white space, then the word \<open>g\<close>, a run of word characters that ends
  the text or is followed by a character that is no word character.
\<close>

definition word_after :: "string \<Rightarrow> string \<Rightarrow> nat \<Rightarrow> string \<Rightarrow> bool" where
  "word_after kw q i g =
     (\<exists>ws post. drop i q = kw @ ws @ g @ post \<and> ws \<noteq> [] \<and> list_all is_space ws
        \<and> g \<noteq> [] \<and> list_all is_word g \<and> (post = [] \<or> \<not> is_word (hd post)))"

text \<open>
  \<open>first_word_after kws q g\<close>: \<open>g\<close> is the word after the leftmost occurrence in
  \<open>q\<close> of one of the keywords \<open>kws\<close> followed by white space and a word.
\<close>

definition first_word_after :: "string list \<Rightarrow> string \<Rightarrow> string \<Rightarrow> bool" where
  "first_word_after kws q g =
     (\<exists>i. (\<exists>kw \<in> set kws. word_after kw q i g)
        \<and> (\<forall>j < i. \<forall>kw \<in> set kws. \<forall>g'. \<not> word_after kw q j g'))"



section \<open>Searching with the matchers\<close>

lemma re_search_Some_iff:
  "re_search m q = Some r \<longleftrightarrow> (\<exists>i\<le>length q. m (drop i q) = Some r \<and> (\<forall>j<i. m (drop j q) = None))"
proof (induction q)
  case Nil
  then show ?case by simp
next
  case (Cons c cs)
  show ?case
  proof (cases "m (c # cs)")
    case (Some g)
    have "(\<exists>i\<le>length (c # cs). m (drop i (c # cs)) = Some r \<and> (\<forall>j<i. m (drop j (c # cs)) = None)) \<longleftrightarrow> g = r"
    proof
      assume "\<exists>i\<le>length (c # cs). m (drop i (c # cs)) = Some r \<and> (\<forall>j<i. m (drop j (c # cs)) = None)"
      then obtain i where i: "m (drop i (c # cs)) = Some r" "\<forall>j<i. m (drop j (c # cs)) = None"
        by blast
      have "i = 0"
      proof (rule ccontr)
        assume "i \<noteq> 0"
        then have "m (drop 0 (c # cs)) = None" using i(2) by blast
        then show False using Some by simp
      qed
      then show "g = r" using i(1) Some by simp
    next
      assume "g = r"
      then have "m (drop 0 (c # cs)) = Some r \<and> (\<forall>j<0. m (drop j (c # cs)) = None)"
        using Some by simp
      then show "\<exists>i\<le>length (c # cs). m (drop i (c # cs)) = Some r \<and> (\<forall>j<i. m (drop j (c # cs)) = None)"
        by blast
    qed
    then show ?thesis using Some by simp
  next
    case None
    have "(\<exists>i\<le>length (c # cs). m (drop i (c # cs)) = Some r \<and> (\<forall>j<i. m (drop j (c # cs)) = None))
      \<longleftrightarrow> (\<exists>i\<le>length cs. m (drop i cs) = Some r \<and> (\<forall>j<i. m (drop j cs) = None))"
      (is "?L \<longleftrightarrow> ?R")
    proof
      assume ?L
      then obtain i where i: "i \<le> length (c # cs)" "m (drop i (c # cs)) = Some r"
        "\<forall>j<i. m (drop j (c # cs)) = None" by blast
      obtain k where k: "i = Suc k" using i(2) None by (cases i) auto
      have "\<forall>j<k. m (drop j cs) = None"
      proof (intro allI impI)
        fix j assume "j < k"
        then have "Suc j < i" using k by simp
        then have "m (drop (Suc j) (c # cs)) = None" using i(3) by blast
        then show "m (drop j cs) = None" by simp
      qed
      then show ?R using i(1,2) k by auto
    next
      assume ?R
      then obtain k where k: "k \<le> length cs" "m (drop k cs) = Some r" "\<forall>j<k. m (drop j cs) = None"
        by blast
      have "\<forall>j<Suc k. m (drop j (c # cs)) = None"
      proof (intro allI impI)
        fix j assume "j < Suc k"
        then show "m (drop j (c # cs)) = None" using None k(3) by (cases j) auto
      qed
      then have "Suc k \<le> length (c # cs) \<and> m (drop (Suc k) (c # cs)) = Some r \<and> (\<forall>j<Suc k. m (drop j (c # cs)) = None)"
        using k by simp
      then show ?L by blast
    qed
    then show ?thesis using None Cons.IH by simp
  qed
qed


lemma run_start: "ys = [] \<or> \<not> P (hd ys) \<Longrightarrow> takeWhile P ys = [] \<and> dropWhile P ys = ys"
  by (cases ys) auto

lemma run_split:
  "list_all P xs \<Longrightarrow> ys = [] \<or> \<not> P (hd ys) \<Longrightarrow>
     takeWhile P (xs @ ys) = xs \<and> dropWhile P (xs @ ys) = ys"
  using run_start [of ys P] by (induction xs) auto


lemma digit_not_space: "is_digit c \<Longrightarrow> \<not> is_space c"
  by (auto simp: is_digit_def is_space_def)

lemma match_keyword_iff:
  assumes disj: "\<And>c. cls c \<Longrightarrow> \<not> is_space c"
  shows "match_keyword kw cls s = Some g \<longleftrightarrow>
     (\<exists>ws post. s = kw @ ws @ g @ post \<and> ws \<noteq> [] \<and> list_all is_space ws
        \<and> g \<noteq> [] \<and> list_all cls g \<and> (post = [] \<or> \<not> cls (hd post)))" (is "?L \<longleftrightarrow> ?R")
proof
  assume l: ?L
  then have p: "prefix kw s" by (auto simp: match_keyword_def split: if_splits)
  define r where "r = drop (length kw) s"
  define ws where "ws = takeWhile is_space r"
  define r' where "r' = dropWhile is_space r"
  define post where "post = dropWhile cls r'"
  have s: "s = kw @ r" using p by (auto simp: r_def prefix_def)
  have g: "g = takeWhile cls r'" "ws \<noteq> []" "g \<noteq> []"
    using l p by (auto simp: match_keyword_def Let_def r_def r'_def ws_def split: if_splits)
  have "r = ws @ r'" by (simp add: ws_def r'_def)
  moreover have "r' = g @ post" by (simp add: g(1) post_def)
  moreover have "list_all is_space ws" by (auto simp: ws_def list_all_iff dest: set_takeWhileD)
  moreover have "list_all cls g" by (auto simp: g(1) list_all_iff dest: set_takeWhileD)
  moreover have "post = [] \<or> \<not> cls (hd post)" unfolding post_def by (metis hd_dropWhile)
  ultimately show ?R using s g(2,3) by blast
next
  assume ?R
  then obtain ws post where h: "s = kw @ ws @ g @ post" "ws \<noteq> []" "list_all is_space ws"
    "g \<noteq> []" "list_all cls g" "post = [] \<or> \<not> cls (hd post)" by blast
  have "cls (hd g)" using h(4,5) by (cases g) auto
  then have "\<not> is_space (hd (g @ post))" using disj h(4) by simp
  then have a: "takeWhile is_space (ws @ g @ post) = ws \<and> dropWhile is_space (ws @ g @ post) = g @ post"
    using run_split [OF h(3), of "g @ post"] by blast
  have b: "takeWhile cls (g @ post) = g" using run_split [OF h(5) h(6)] by blast
  show ?L using h(1,2,4) a b by (simp add: match_keyword_def Let_def)
qed



















lemma word_after_is_word: "word_after kw q i g \<Longrightarrow> g \<noteq> [] \<and> list_all is_word g"
  by (auto simp: word_after_def)

lemma first_word_after_is_word: "first_word_after kws q g \<Longrightarrow> g \<noteq> [] \<and> list_all is_word g"
  by (auto simp: first_word_after_def dest: word_after_is_word)

section \<open>The branches never raise\<close>

lemma re_search_SomeD: "re_search m q = Some r \<Longrightarrow> \<exists>i. m (drop i q) = Some r"
  unfolding re_search_Some_iff by blast

lemma int_py_digits: "g \<noteq> [] \<Longrightarrow> list_all is_digit g \<Longrightarrow> \<exists>n. int_py g = Inr n \<and> 0 \<le> n"
  by (simp add: int_py_def)

lemma match_digits_SomeD: "match_digits s = Some g \<Longrightarrow> g \<noteq> [] \<and> list_all is_digit g"
  by (auto simp: match_digits_def Let_def list_all_iff split: if_splits dest: set_takeWhileD)

lemma match_digits_rows_SomeD: "match_digits_rows s = Some g \<Longrightarrow> g \<noteq> [] \<and> list_all is_digit g"
  by (auto simp: match_digits_rows_def Let_def list_all_iff split: if_splits dest: set_takeWhileD)

lemma match_limit_SomeD: "match_keyword kw is_digit s = Some g \<Longrightarrow> g \<noteq> [] \<and> list_all is_digit g"
  using match_keyword_iff [of is_digit kw s g] digit_not_space by blast

lemma large_partition_num_rows_ok: "\<exists>n. large_partition_num_rows q = Inr n \<and> 0 \<le> n"
proof (cases "re_search match_digits_rows q")
  case None
  then show ?thesis by (simp add: large_partition_num_rows_def)
next
  case (Some g)
  then obtain i where "match_digits_rows (drop i q) = Some g" by (auto dest: re_search_SomeD)
  then have "g \<noteq> [] \<and> list_all is_digit g" by (rule match_digits_rows_SomeD)
  then have "\<exists>n. int_py g = Inr n \<and> 0 \<le> n" by (simp add: int_py_digits)
  then show ?thesis using Some by (simp add: large_partition_num_rows_def)
qed

lemma bulk_insert_num_rows_ok: "\<exists>n. bulk_insert_num_rows q = Inr n \<and> 0 \<le> n"
proof (cases "re_search match_digits q")
  case None
  then show ?thesis by (simp add: bulk_insert_num_rows_def)
next
  case (Some g)
  then obtain i where "match_digits (drop i q) = Some g" by (auto dest: re_search_SomeD)
  then have "g \<noteq> [] \<and> list_all is_digit g" by (rule match_digits_SomeD)
  then have "\<exists>n. int_py g = Inr n \<and> 0 \<le> n" by (simp add: int_py_digits)
  then show ?thesis using Some by (simp add: bulk_insert_num_rows_def)
qed

lemma select_limit_ok: "\<exists>n. select_limit q = Inr n \<and> 0 \<le> n"
proof (cases "re_search (match_keyword ''limit'' is_digit) q")
  case None
  then show ?thesis by (simp add: select_limit_def)
next
  case (Some g)
  then obtain i where "match_keyword ''limit'' is_digit (drop i q) = Some g"
    by (auto dest: re_search_SomeD)
  then have "g \<noteq> [] \<and> list_all is_digit g" by (rule match_limit_SomeD)
  then have "\<exists>n. int_py g = Inr n \<and> 0 \<le> n" by (simp add: int_py_digits)
  then show ?thesis using Some by (simp add: select_limit_def)
qed

lemma lwt_operation_type_cases:
  "lwt_operation_type q = (if sublist ''update'' q then ''update'' else ''insert'')"
  by (simp add: lwt_operation_type_def)

lemma large_partition_branch_eq:
  "large_partition_num_rows q = Inr n \<Longrightarrow>
   large_partition_branch q ks dt =
     (if large_partition_requested q
      then Inr (Some (if dt = ''python''
             then large_partition_python ks (large_partition_table_name q) (large_partition_key q)
                    ''large_partition_user'' n
             else ''Java driver code for large partition example''))
      else Inr None)"
  by (simp add: large_partition_branch_def Let_def)

lemma lwt_branch_eq:
  "lwt_branch q ks dt =
     (if lwt_requested q
      then Inr (Some (if dt = ''python''
             then (if sublist ''update'' q then lwt_update_python ks (lwt_table_name q)
                   else lwt_insert_python ks (lwt_table_name q))
             else ''Java driver code for LWT example''))
      else Inr None)"
  by (simp add: lwt_branch_def lwt_operation_type_def Let_def)

lemma bulk_insert_branch_eq:
  "bulk_insert_num_rows q = Inr n \<Longrightarrow>
   bulk_insert_branch q ks dt =
     (if bulk_insert_requested q
      then Inr (Some (if dt = ''python''
             then bulk_insert_python ks (bulk_insert_table_name q) n
             else ''Java driver code for inserting rows''))
      else Inr None)"
  by (simp add: bulk_insert_branch_def Let_def)

lemma select_branch_eq:
  "select_limit q = Inr n \<Longrightarrow>
   select_branch q ks dt =
     (if select_requested q
      then Inr (Some (if dt = ''python''
             then (if sublist ''count'' q then select_count_python ks (select_table_name q)
                   else select_rows_python ks (select_table_name q) n)
             else ''Java driver code for selecting data''))
      else Inr None)"
  by (simp add: select_branch_def Let_def)


lemma parse_first_match:
  "\<exists>n_lp n_bi lim.
     large_partition_num_rows (normalized q) = Inr n_lp \<and>
     bulk_insert_num_rows (normalized q) = Inr n_bi \<and>
     select_limit (normalized q) = Inr lim \<and>
     parse_natural_language_query q ks dt = Inr
       (if large_partition_requested (normalized q) then
          (if dt = ''python''
           then large_partition_python ks (large_partition_table_name (normalized q))
                  (large_partition_key (normalized q)) ''large_partition_user'' n_lp
           else ''Java driver code for large partition example'')
        else if lwt_requested (normalized q) then
          (if dt = ''python''
           then (if sublist ''update'' (normalized q)
                 then lwt_update_python ks (lwt_table_name (normalized q))
                 else lwt_insert_python ks (lwt_table_name (normalized q)))
           else ''Java driver code for LWT example'')
        else if bulk_insert_requested (normalized q) then
          (if dt = ''python''
           then bulk_insert_python ks (bulk_insert_table_name (normalized q)) n_bi
           else ''Java driver code for inserting rows'')
        else if select_requested (normalized q) then
          (if dt = ''python''
           then (if sublist ''count'' (normalized q)
                 then select_count_python ks (select_table_name (normalized q))
                 else select_rows_python ks (select_table_name (normalized q)) lim)
           else ''Java driver code for selecting data'')
        else default_code (normalized q))"
proof -
  obtain n_lp where a: "large_partition_num_rows (normalized q) = Inr n_lp"
    using large_partition_num_rows_ok by blast
  obtain n_bi where b: "bulk_insert_num_rows (normalized q) = Inr n_bi"
    using bulk_insert_num_rows_ok by blast
  obtain lim where c: "select_limit (normalized q) = Inr lim"
    using select_limit_ok by blast
  have "parse_natural_language_query q ks dt = Inr
       (if large_partition_requested (normalized q) then
          (if dt = ''python''
           then large_partition_python ks (large_partition_table_name (normalized q))
                  (large_partition_key (normalized q)) ''large_partition_user'' n_lp
           else ''Java driver code for large partition example'')
        else if lwt_requested (normalized q) then
          (if dt = ''python''
           then (if sublist ''update'' (normalized q)
                 then lwt_update_python ks (lwt_table_name (normalized q))
                 else lwt_insert_python ks (lwt_table_name (normalized q)))
           else ''Java driver code for LWT example'')
        else if bulk_insert_requested (normalized q) then
          (if dt = ''python''
           then bulk_insert_python ks (bulk_insert_table_name (normalized q)) n_bi
           else ''Java driver code for inserting rows'')
        else if select_requested (normalized q) then
          (if dt = ''python''
           then (if sublist ''count'' (normalized q)
                 then select_count_python ks (select_table_name (normalized q))
                 else select_rows_python ks (select_table_name (normalized q)) lim)
           else ''Java driver code for selecting data'')
        else default_code (normalized q))"
    unfolding parse_natural_language_query_def Let_def
      large_partition_branch_eq [OF a] lwt_branch_eq bulk_insert_branch_eq [OF b] select_branch_eq [OF c]
    by simp
  then show ?thesis using a b c by blast
qed

text \<open>The result in each of the five cases, read off the first-match form.\<close>

lemma parse_large_partition:
  assumes "large_partition_requested (normalized q)"
    and "large_partition_num_rows (normalized q) = Inr n"
  shows "parse_natural_language_query q ks dt = Inr
       (if dt = ''python''
        then large_partition_python ks (large_partition_table_name (normalized q))
               (large_partition_key (normalized q)) ''large_partition_user'' n
        else ''Java driver code for large partition example'')"
  using parse_first_match [of q ks dt] assms by auto

lemma parse_lwt:
  assumes "\<not> large_partition_requested (normalized q)" and "lwt_requested (normalized q)"
  shows "parse_natural_language_query q ks dt = Inr
       (if dt = ''python''
        then (if sublist ''update'' (normalized q)
              then lwt_update_python ks (lwt_table_name (normalized q))
              else lwt_insert_python ks (lwt_table_name (normalized q)))
        else ''Java driver code for LWT example'')"
  using parse_first_match [of q ks dt] assms by auto

lemma parse_bulk_insert:
  assumes "\<not> large_partition_requested (normalized q)" and "\<not> lwt_requested (normalized q)"
    and "bulk_insert_requested (normalized q)"
    and "bulk_insert_num_rows (normalized q) = Inr n"
  shows "parse_natural_language_query q ks dt = Inr
       (if dt = ''python''
        then bulk_insert_python ks (bulk_insert_table_name (normalized q)) n
        else ''Java driver code for inserting rows'')"
  using parse_first_match [of q ks dt] assms by auto


lemma parse_default:
  assumes "\<not> large_partition_requested (normalized q)" and "\<not> lwt_requested (normalized q)"
    and "\<not> bulk_insert_requested (normalized q)" and "\<not> select_requested (normalized q)"
  shows "parse_natural_language_query q ks dt = Inr (default_code (normalized q))"
  using parse_first_match [of q ks dt] assms by auto

section \<open>Facts about the templates\<close>





text \<open>A line of a template is part of its text: it is the first line or a line of the rest.\<close>

lemma code_text_here: "sublist l (code_text (l # ls))"
proof -
  have "code_text (l # ls) = [CHR 0x0A] @ l @ (CHR 0x0A # concat (map (\<lambda>l. l @ [CHR 0x0A]) ls))"
    by (simp add: code_text_def)
  then show ?thesis by (metis sublist_appendI)
qed

lemma code_text_later: "sublist x (code_text ls) \<Longrightarrow> sublist x (code_text (l # ls))"
proof -
  assume x: "sublist x (code_text ls)"
  have "code_text (l # ls) = (CHR 0x0A # l) @ code_text ls"
    by (simp add: code_text_def)
  then have "sublist (code_text ls) (code_text (l # ls))" by (metis sublist_append_leftI)
  then show ?thesis using x by (meson sublist_order.order_trans)
qed

lemma sublist_trans: "sublist x y \<Longrightarrow> sublist y z \<Longrightarrow> sublist x z"
  by (meson sublist_order.order_trans)





text \<open>Lines of the templates that carry the keyspace, the table name and the counts.\<close>

lemma create_table_lines:
  "sublist (''CREATE TABLE IF NOT EXISTS '' @ ks @ ''.'' @ tn @ '' ('') (large_partition_python ks tn pk pv n)"
  "sublist (''CREATE TABLE IF NOT EXISTS '' @ ks @ ''.'' @ tn @ '' ('') (lwt_insert_python ks tn)"
  "sublist (''CREATE TABLE IF NOT EXISTS '' @ ks @ ''.'' @ tn @ '' ('') (lwt_update_python ks tn)"
  "sublist (''CREATE TABLE IF NOT EXISTS '' @ ks @ ''.'' @ tn @ '' ('') (bulk_insert_python ks tn n)"
  unfolding large_partition_python_def lwt_insert_python_def lwt_update_python_def bulk_insert_python_def
  by (rule code_text_here | rule code_text_later)+

lemma select_lines:
  \<open>sublist (''count_query = f"SELECT COUNT(*) FROM '' @ ks @ ''.'' @ tn @ ''"'') (select_count_python ks tn)\<close>
  \<open>sublist (''query = f"SELECT * FROM '' @ ks @ ''.'' @ tn @ '' LIMIT '' @ str_int n @ ''"'')
     (select_rows_python ks tn n)\<close>
  unfolding select_count_python_def select_rows_python_def
  by (rule code_text_here | rule code_text_later)+

lemma bulk_insert_lines:
  "sublist (''for i in range('' @ str_int n @ ''):'') (bulk_insert_python ks tn n)"
  "sublist (''    INSERT INTO '' @ ks @ ''.'' @ tn @ '' (id, name, email, created_at)'') (bulk_insert_python ks tn n)"
  unfolding bulk_insert_python_def
  by (rule code_text_here | rule code_text_later)+

lemma lwt_insert_marker: "sublist ''IF NOT EXISTS'' (lwt_insert_python ks tn)"
  unfolding lwt_insert_python_def
  by (rule code_text_here | rule code_text_later)+

lemma lwt_update_marker: "sublist ''IF email ='' (lwt_update_python ks tn)"
proof -
  have "sublist ''IF email = ?'' (lwt_update_python ks tn)"
    unfolding lwt_update_python_def by (rule code_text_here | rule code_text_later)+
  moreover have "sublist ''IF email ='' ''IF email = ?''"
    by (simp add: sublist_code(3))
  ultimately show ?thesis by (meson sublist_trans)
qed

lemma default_code_echo:
  \<open>sublist (''query = "'' @ q @ ''"  # This is your natural language query'') (default_code q)\<close>
  unfolding default_code_def by (rule code_text_here | rule code_text_later)+



section \<open>Evaluating the function on a given query\<close>

lemmas query_eval =
  normalized_def lower_def lower_char_def is_upper_def strip_def is_space_def is_digit_def is_word_def
  sublist_code(3) Let_def
  large_partition_requested_def lwt_requested_def bulk_insert_requested_def select_requested_def
  match_digits_def match_digits_rows_def match_keyword_def match_alt_def
  int_py_def digit_value_def
  large_partition_num_rows_def large_partition_table_name_def large_partition_key_def
  lwt_table_name_def bulk_insert_num_rows_def bulk_insert_table_name_def
  select_table_name_def select_limit_def

lemmas text_eval =
  sublist_code prefix_code char.inject list.inject simp_thms
  list.map concat.simps append.simps list.set ball_simps insert_iff empty_iff

lemma str_int_5: "str_int 5 = ''5''"
  by (simp add: str_int_def str_nat.simps digit_char_def)

lemma str_int_10: "str_int 10 = ''10''"
  by (simp add: str_int_def str_nat.simps digit_char_def)

lemma asdkjasd_unmatched:
  "normalized ''asdkjasd'' = ''asdkjasd''"
  "\<not> large_partition_requested ''asdkjasd''"
  "\<not> lwt_requested ''asdkjasd''"
  "\<not> bulk_insert_requested ''asdkjasd''"
  "\<not> select_requested ''asdkjasd''"
  by (simp_all add: query_eval)

lemma insert_5_rows_bulk:
  "normalized ''insert 5 rows'' = ''insert 5 rows''"
  "\<not> large_partition_requested ''insert 5 rows''"
  "\<not> lwt_requested ''insert 5 rows''"
  "bulk_insert_requested ''insert 5 rows''"
  "bulk_insert_num_rows ''insert 5 rows'' = Inr 5"
  "bulk_insert_table_name ''insert 5 rows'' = ''users''"
  by (simp_all add: query_eval)

section \<open>The claims\<close>














text \<open>
  Claim C6. With driver type python, the query \<^verbatim>\<open>insert 5 rows\<close> is rendered by the
  bulk-insert template with row count 5 and the default table \<^verbatim>\<open>users\<close> (its loop
  runs over \<^verbatim>\<open>range(5)\<close>, its statement inserts into \<^verbatim>\<open>users\<close> of the
  keyspace), and the query \<^verbatim>\<open>insert rows into orders\<close> by the same template
  with table \<^verbatim>\<open>orders\<close> and the default row count 10.
\<close>

theorem default_substitution:
  "parse_natural_language_query ''insert 5 rows'' ks ''python'' = Inr (bulk_insert_python ks ''users'' 5)
   \<and> sublist ''for i in range(5):'' (bulk_insert_python ks ''users'' 5)
   \<and> sublist (''    INSERT INTO '' @ ks @ ''.users (id, name, email, created_at)'')
        (bulk_insert_python ks ''users'' 5)
   \<and> parse_natural_language_query ''insert rows into orders'' ks ''python'' = Inr (bulk_insert_python ks ''orders'' 10)
   \<and> sublist ''for i in range(10):'' (bulk_insert_python ks ''orders'' 10)
   \<and> sublist (''    INSERT INTO '' @ ks @ ''.orders (id, name, email, created_at)'')
        (bulk_insert_python ks ''orders'' 10)"
proof -
  have a: "parse_natural_language_query ''insert 5 rows'' ks ''python'' = Inr (bulk_insert_python ks ''users'' 5)"
    using parse_bulk_insert [of "''insert 5 rows''" 5 ks "''python''"]
    unfolding insert_5_rows_bulk(1,6) using insert_5_rows_bulk(2-5) by simp
  have n: "normalized ''insert rows into orders'' = ''insert rows into orders''"
    by (simp add: query_eval)
  have h: "\<not> large_partition_requested ''insert rows into orders''"
    "\<not> lwt_requested ''insert rows into orders''"
    "bulk_insert_requested ''insert rows into orders''"
    "bulk_insert_num_rows ''insert rows into orders'' = Inr 10"
    and t: "bulk_insert_table_name ''insert rows into orders'' = ''orders''"
    by (simp_all add: query_eval)
  have b: "parse_natural_language_query ''insert rows into orders'' ks ''python'' = Inr (bulk_insert_python ks ''orders'' 10)"
    using parse_bulk_insert [of "''insert rows into orders''" 10 ks "''python''"]
    unfolding n t using h by simp
  show ?thesis
    using a b bulk_insert_lines [where n = 5 and ks = ks and tn = "''users''"]
      bulk_insert_lines [where n = 10 and ks = ks and tn = "''orders''"]
    by (simp add: str_int_5 str_int_10)
qed

text \<open>
  Claim C7. With driver type python, the query \<^verbatim>\<open>use lwt\<close> is rendered by the
  insert form of the lightweight-transaction template, which contains the marker
  \<^verbatim>\<open>IF NOT EXISTS\<close>, and the query \<^verbatim>\<open>conditional update\<close> by the update
  form, which contains the marker \<^verbatim>\<open>IF email =\<close>.
\<close>

theorem lwt_markers:
  "parse_natural_language_query ''use lwt'' ks ''python'' = Inr (lwt_insert_python ks ''users'')
   \<and> sublist ''IF NOT EXISTS'' (lwt_insert_python ks ''users'')
   \<and> parse_natural_language_query ''conditional update'' ks ''python'' = Inr (lwt_update_python ks ''users'')
   \<and> sublist ''IF email ='' (lwt_update_python ks ''users'')"
proof -
  have n: "normalized ''use lwt'' = ''use lwt''"
    and h: "\<not> large_partition_requested ''use lwt''" "lwt_requested ''use lwt''"
      "\<not> sublist ''update'' ''use lwt''"
    and t: "lwt_table_name ''use lwt'' = ''users''"
    by (simp_all add: query_eval)
  have a: "parse_natural_language_query ''use lwt'' ks ''python'' = Inr (lwt_insert_python ks ''users'')"
    using parse_lwt [of "''use lwt''" ks "''python''"] unfolding n t using h by simp
  have n': "normalized ''conditional update'' = ''conditional update''"
    and h': "\<not> large_partition_requested ''conditional update''" "lwt_requested ''conditional update''"
      "sublist ''update'' ''conditional update''"
    and t': "lwt_table_name ''conditional update'' = ''users''"
    by (simp_all add: query_eval)
  have b: "parse_natural_language_query ''conditional update'' ks ''python'' = Inr (lwt_update_python ks ''users'')"
    using parse_lwt [of "''conditional update''" ks "''python''"] unfolding n' t' using h' by simp
  show ?thesis using a b lwt_insert_marker lwt_update_marker by simp
qed






text \<open>
  Claim C10, as amended. Slots are filled by plain concatenation. The fallback template
  puts the normalised query between the quotes of its assignment line as it is, so the
  query \<^verbatim>\<open>say "hi"\<close> leaves its quotes unescaped in that line. The keyspace is put
  as it is into each of the six python templates of the matched categories. The fallback
  template and the java placeholders have no keyspace slot, so the claim as stated, with
  the keyspace in every template, fails.
\<close>

theorem verbatim_substitution:
  \<open>parse_natural_language_query ''say "hi"'' ks dt = Inr (default_code ''say "hi"'')
   \<and> sublist ''query = "say "hi""  # This is your natural language query'' (default_code ''say "hi"'')
   \<and> sublist (''query = "'' @ q @ ''"  # This is your natural language query'') (default_code q)
   \<and> sublist (''CREATE TABLE IF NOT EXISTS '' @ ks @ ''.'' @ tn @ '' ('')
        (large_partition_python ks tn pk pv n)
   \<and> sublist (''CREATE TABLE IF NOT EXISTS '' @ ks @ ''.'' @ tn @ '' ('') (lwt_insert_python ks tn)
   \<and> sublist (''CREATE TABLE IF NOT EXISTS '' @ ks @ ''.'' @ tn @ '' ('') (lwt_update_python ks tn)
   \<and> sublist (''CREATE TABLE IF NOT EXISTS '' @ ks @ ''.'' @ tn @ '' ('') (bulk_insert_python ks tn n)
   \<and> sublist (''count_query = f"SELECT COUNT(*) FROM '' @ ks @ ''.'' @ tn @ ''"'')
        (select_count_python ks tn)
   \<and> sublist (''query = f"SELECT * FROM '' @ ks @ ''.'' @ tn @ '' LIMIT '' @ str_int n @ ''"'')
        (select_rows_python ks tn n)\<close>
proof -
  have u: \<open>normalized ''say "hi"'' = ''say "hi"''\<close>
    \<open>\<not> large_partition_requested ''say "hi"''\<close> \<open>\<not> lwt_requested ''say "hi"''\<close>
    \<open>\<not> bulk_insert_requested ''say "hi"''\<close> \<open>\<not> select_requested ''say "hi"''\<close>
    by (simp_all add: query_eval)
  have a: \<open>parse_natural_language_query ''say "hi"'' ks dt = Inr (default_code ''say "hi"'')\<close>
    using parse_default [of \<open>''say "hi"''\<close> ks dt] unfolding u(1) using u(2-5) by simp
  have b: \<open>sublist ''query = "say "hi""  # This is your natural language query'' (default_code ''say "hi"'')\<close>
    using default_code_echo [of \<open>''say "hi"''\<close>] by simp
  show ?thesis
    using a b default_code_echo [of q] create_table_lines [of ks tn] select_lines [of ks tn] by simp
qed

theorem keyspace_counterexample:
  "parse_natural_language_query ''asdkjasd'' ''my_keyspace'' ''python'' = Inr (default_code ''asdkjasd'')
   \<and> \<not> sublist ''my_keyspace'' (default_code ''asdkjasd'')
   \<and> parse_natural_language_query ''insert 5 rows'' ''my_keyspace'' ''java''
        = Inr ''Java driver code for inserting rows''
   \<and> \<not> sublist ''my_keyspace'' ''Java driver code for inserting rows''"
proof -
  have a: "parse_natural_language_query ''asdkjasd'' ''my_keyspace'' ''python'' = Inr (default_code ''asdkjasd'')"
    using parse_default [of "''asdkjasd''" "''my_keyspace''" "''python''"]
    unfolding asdkjasd_unmatched(1) using asdkjasd_unmatched(2-5) by simp
  have b: "\<not> sublist ''my_keyspace'' (default_code ''asdkjasd'')"
    by (simp only: default_code_def code_text_def text_eval)
  have c: "parse_natural_language_query ''insert 5 rows'' ''my_keyspace'' ''java''
        = Inr ''Java driver code for inserting rows''"
    using parse_bulk_insert [of "''insert 5 rows''" 5 "''my_keyspace''" "''java''"]
    unfolding insert_5_rows_bulk(1) using insert_5_rows_bulk(2-5) by simp
  have d: "\<not> sublist ''my_keyspace'' ''Java driver code for inserting rows''"
    by (simp add: sublist_code(3))
  show ?thesis using a b c d by simp
qed

end
